theory Spec2Isabelle
  imports Complex_Main
begin

section \<open>Python values used by the segment renderer\<close>

text \<open>
  The module is Python 2 (\<^verbatim>\<open>sprite.py\<close> calls \<^verbatim>\<open>has_key\<close>), so \<^verbatim>\<open>/\<close> on two ints is floor
  division, \<^verbatim>\<open>round\<close> returns a float and rounds halves away from zero, and a division by
  zero raises \<^verbatim>\<open>ZeroDivisionError\<close> for ints and floats alike.

  A float is a finite value, an infinity or a NaN. Finite values are carried as reals:
  the arithmetic on them is exact here, so rounding to 53 bits and overflow are outside
  this development. The special values follow IEEE-754 as Python exposes it. The two
  zeros are one value \<open>Fin 0\<close>; Python treats them alike in \<^verbatim>\<open>==\<close>, in ordering and as a divisor.
  An int that meets a float is converted by \<open>fint\<close>.
\<close>

datatype pyerror = KeyError | ZeroDivisionError | ValueError

datatype pyfloat = Fin real | PInf | NInf | NaN

definition fint :: "int \<Rightarrow> pyfloat" where
  "fint i = Fin (of_int i)"

fun fneg :: "pyfloat \<Rightarrow> pyfloat" where
  "fneg (Fin a) = Fin (- a)"
| "fneg PInf = NInf"
| "fneg NInf = PInf"
| "fneg NaN = NaN"

fun fadd :: "pyfloat \<Rightarrow> pyfloat \<Rightarrow> pyfloat" where
  "fadd NaN b = NaN"
| "fadd a NaN = NaN"
| "fadd (Fin a) (Fin b) = Fin (a + b)"
| "fadd PInf NInf = NaN"
| "fadd NInf PInf = NaN"
| "fadd PInf b = PInf"
| "fadd NInf b = NInf"
| "fadd (Fin a) b = b"

definition fsub :: "pyfloat \<Rightarrow> pyfloat \<Rightarrow> pyfloat" where
  "fsub a b = fadd a (fneg b)"

fun fsign :: "pyfloat \<Rightarrow> int" where
  "fsign (Fin a) = (if a = 0 then 0 else if 0 < a then 1 else - 1)"
| "fsign PInf = 1"
| "fsign NInf = - 1"
| "fsign NaN = 0"

definition finf :: "int \<Rightarrow> pyfloat" where
  \<comment> \<open>the infinity of a given sign; sign 0 is the invalid operation\<close>
  "finf sg = (if sg = 0 then NaN else if 0 < sg then PInf else NInf)"

fun fmul :: "pyfloat \<Rightarrow> pyfloat \<Rightarrow> pyfloat" where
  "fmul NaN b = NaN"
| "fmul a NaN = NaN"
| "fmul (Fin a) (Fin b) = Fin (a * b)"
| "fmul a b = finf (fsign a * fsign b)"

fun fquot :: "pyfloat \<Rightarrow> pyfloat \<Rightarrow> pyfloat" where
  \<comment> \<open>the quotient by a divisor that is not zero\<close>
  "fquot NaN b = NaN"
| "fquot a NaN = NaN"
| "fquot (Fin a) (Fin b) = Fin (a / b)"
| "fquot (Fin a) b = Fin 0"
| "fquot a (Fin b) = finf (fsign a * fsign (Fin b))"
| "fquot a b = NaN"

definition fdiv :: "pyfloat \<Rightarrow> pyfloat \<Rightarrow> pyerror + pyfloat" where
  \<comment> \<open>Python's float \<^verbatim>\<open>/\<close>: the divisor is tested for zero before anything else\<close>
  "fdiv a b = (if b = Fin 0 then Inl ZeroDivisionError else Inr (fquot a b))"

fun py_round :: "pyfloat \<Rightarrow> pyfloat" where
  \<comment> \<open>Python 2 \<^verbatim>\<open>round(x)\<close>: a float, halves away from zero; infinities and NaN pass through\<close>
  "py_round (Fin a) =
     Fin (if 0 \<le> a then of_int \<lfloor>a + 1 / 2\<rfloor> else of_int \<lceil>a - 1 / 2\<rceil>)"
| "py_round PInf = PInf"
| "py_round NInf = NInf"
| "py_round NaN = NaN"

fun fle :: "pyfloat \<Rightarrow> pyfloat \<Rightarrow> bool" where
  \<comment> \<open>\<^verbatim>\<open><=\<close>; every comparison with NaN is false\<close>
  "fle NaN b = False"
| "fle a NaN = False"
| "fle (Fin a) (Fin b) = (a \<le> b)"
| "fle NInf b = True"
| "fle a PInf = True"
| "fle a b = False"


definition fge :: "pyfloat \<Rightarrow> pyfloat \<Rightarrow> bool" where
  "fge a b = fle b a"

definition dict_get :: "(string \<rightharpoonup> pyfloat) \<Rightarrow> string \<Rightarrow> pyfloat \<Rightarrow> pyfloat" where
  \<comment> \<open>\<^verbatim>\<open>d.get(k, default)\<close>\<close>
  "dict_get d k dflt = (case d k of None \<Rightarrow> dflt | Some v \<Rightarrow> v)"

section \<open>Settings and drawing surface\<close>

type_synonym colour = "nat \<times> nat \<times> nat"

text \<open>
  Modelled from the spec: the module \<^verbatim>\<open>settings\<close> is not part of the sources at hand.
  It supplies the constants below. \<open>COLOURS\<close> maps a palette name to the four colours of that
  palette; the shared gutter colour, \<^verbatim>\<open>COLOURS["gutter"]\<close> in the code, is the field \<open>GUTTER\<close>.
  \<open>DIMENSIONS\<close>, \<open>LANES\<close> and \<open>RUMBLE_LENGTH\<close> are ints; the other constants are numbers
  that only ever meet floats, \<open>CAMERA_DEPTH\<close> being a float itself (0.84 in the spec).
\<close>

record palette =
  road :: colour
  grass :: colour
  footpath :: colour
  line :: colour

record settings =
  DIMENSIONS :: "int \<times> int"
  CAMERA_DEPTH :: pyfloat
  CAMERA_HEIGHT :: pyfloat
  SEGMENT_HEIGHT :: pyfloat
  ROAD_WIDTH :: pyfloat
  LANES :: int
  RUMBLE_LENGTH :: int
  COLOURS :: "string \<rightharpoonup> palette"
  GUTTER :: colour

text \<open>
  A surface is the sequence of draw calls issued on it, oldest first.
  \<open>Rect c (x, y, w, h) width\<close> is \<^verbatim>\<open>pygame.draw.rect(window, c, (x, y, w, h), width)\<close>,
  \<open>Polygon c points\<close> is \<^verbatim>\<open>pygame.draw.polygon(window, c, points)\<close> and
  \<open>Line c a b\<close> is \<^verbatim>\<open>pygame.draw.line(window, c, a, b)\<close>.
\<close>

type_synonym point = "pyfloat \<times> pyfloat"

datatype draw =
  Rect colour "pyfloat \<times> pyfloat \<times> pyfloat \<times> pyfloat" int
| Polygon colour "point list"
| Line colour point point

type_synonym window = "draw list"

text \<open>
  pygame is not part of the sources. Its documentation gives the last argument of
  \<^verbatim>\<open>pygame.draw.rect\<close> this meaning: width 0 fills the rectangle, a positive width draws
  the border of the rectangle with lines of that thickness. \<open>in_rect\<close> says which pixels
  lie in a rectangle given as \<open>(x, y, w, h)\<close>, \<open>rect_paints\<close> which of them a draw with a
  given width argument colours. A rectangle with a coordinate that is not finite has no pixels.
\<close>

fun in_rect :: "pyfloat \<times> pyfloat \<times> pyfloat \<times> pyfloat \<Rightarrow> int \<times> int \<Rightarrow> bool" where
  "in_rect (Fin x, Fin y, Fin w, Fin h) (px, py) =
     (x \<le> of_int px \<and> of_int px < x + w \<and> y \<le> of_int py \<and> of_int py < y + h)"
| "in_rect r p = False"

fun rect_paints ::
  "pyfloat \<times> pyfloat \<times> pyfloat \<times> pyfloat \<Rightarrow> int \<Rightarrow> int \<times> int \<Rightarrow> bool" where
  "rect_paints (Fin x, Fin y, Fin w, Fin h) width (px, py) =
     (in_rect (Fin x, Fin y, Fin w, Fin h) (px, py) \<and>
      (width = 0 \<or>
       of_int px < x + of_int width \<or> x + w - of_int width \<le> of_int px \<or>
       of_int py < y + of_int width \<or> y + h - of_int width \<le> of_int py))"
| "rect_paints r width p = False"

section \<open>Segment\<close>

record seg_line =
  world :: "string \<rightharpoonup> pyfloat"
  camera :: "string \<rightharpoonup> pyfloat"
  screen :: "string \<rightharpoonup> pyfloat"

record 'o segment =
  index :: int
  curve :: pyfloat
  sprites :: "'o list"
  competitors :: "'o list"
  clip :: pyfloat
  colour :: palette
  top_line :: seg_line
  bottom_line :: seg_line

datatype line_name = Top | Bottom

fun getattr :: "'o segment \<Rightarrow> line_name \<Rightarrow> seg_line" where
  "getattr seg Top = top_line seg"
| "getattr seg Bottom = bottom_line seg"

fun setattr :: "'o segment \<Rightarrow> line_name \<Rightarrow> seg_line \<Rightarrow> 'o segment" where
  "setattr seg Top p = seg\<lparr>top_line := p\<rparr>"
| "setattr seg Bottom p = seg\<lparr>bottom_line := p\<rparr>"

definition initialize_line :: "settings \<Rightarrow> pyfloat \<Rightarrow> int \<Rightarrow> seg_line" where
  "initialize_line s y height =
     \<lparr>world = [''y'' \<mapsto> y, ''z'' \<mapsto> fmul (fint height) (SEGMENT_HEIGHT s)],
      camera = Map.empty,
      screen = Map.empty\<rparr>"


text \<open>
  A method that mutates the segment returns the segment as it is when the method ends,
  with \<open>None\<close> for a normal return and \<open>Some e\<close> for a raised exception: what was stored
  before the exception stays stored.
\<close>

definition project_line ::
  "settings \<Rightarrow> 'o segment \<Rightarrow> line_name \<Rightarrow> pyfloat \<Rightarrow> pyfloat \<Rightarrow> pyfloat
     \<Rightarrow> 'o segment \<times> pyerror option" where
  "project_line s seg nm camera_x camera_z player_y =
     (let p = getattr seg nm;
          width = fint (fst (DIMENSIONS s) div 2);
          height = fint (snd (DIMENSIONS s) div 2);
          cx = fsub (dict_get (world p) ''x'' (fint 0)) camera_x;
          cy = fsub (dict_get (world p) ''y'' (fint 0)) (fadd (CAMERA_HEIGHT s) player_y);
          cz = fsub (dict_get (world p) ''z'' (fint 0)) camera_z;
          p1 = p\<lparr>camera := (camera p)(''x'' \<mapsto> cx, ''y'' \<mapsto> cy, ''z'' \<mapsto> cz)\<rparr>
      in case fdiv (CAMERA_DEPTH s) cz of
           Inl e \<Rightarrow> (setattr seg nm p1, Some e)
         | Inr sc \<Rightarrow>
             (setattr seg nm
                (p1\<lparr>screen := (screen p1)
                   (''s'' \<mapsto> sc,
                    ''x'' \<mapsto> py_round (fadd width (fmul (fmul sc cx) width)),
                    ''y'' \<mapsto> py_round (fadd height (fmul (fmul sc cy) height)),
                    ''w'' \<mapsto> py_round (fmul (fmul sc (ROAD_WIDTH s)) width))\<rparr>),
              None))"

definition project ::
  "settings \<Rightarrow> 'o segment \<Rightarrow> pyfloat \<Rightarrow> pyfloat \<Rightarrow> pyfloat \<Rightarrow> pyfloat \<Rightarrow> pyfloat
     \<Rightarrow> 'o segment \<times> pyerror option" where
  "project s seg camera_x crv curve_delta position player_y =
     (case project_line s seg Top (fsub (fsub camera_x crv) curve_delta) position player_y of
        (seg1, Some e) \<Rightarrow> (seg1, Some e)
      | (seg1, None) \<Rightarrow> project_line s seg1 Bottom (fsub camera_x crv) position player_y)"

definition should_ignore :: "settings \<Rightarrow> 'o segment \<Rightarrow> pyfloat \<Rightarrow> pyerror + bool" where
  \<comment> \<open>\<^verbatim>\<open>or\<close> evaluates left to right and stops at the first true operand; a key that
      \<^verbatim>\<open>project\<close> has not stored yet raises \<^verbatim>\<open>KeyError\<close>\<close>
  "should_ignore s seg y_coverage =
     (case camera (top_line seg) ''z'' of
        None \<Rightarrow> Inl KeyError
      | Some cz \<Rightarrow>
          if fle cz (CAMERA_DEPTH s) then Inr True
          else
            (case screen (top_line seg) ''y'' of
               None \<Rightarrow> Inl KeyError
             | Some top_y \<Rightarrow>
                 if fle top_y y_coverage then Inr True
                 else
                   (case screen (bottom_line seg) ''y'' of
                      None \<Rightarrow> Inl KeyError
                    | Some bottom_y \<Rightarrow> Inr (fge bottom_y top_y))))"

definition render_grass ::
  "settings \<Rightarrow> 'o segment \<Rightarrow> window \<Rightarrow> window \<times> pyerror option" where
  "render_grass s seg window =
     (case screen (top_line seg) ''y'' of
        None \<Rightarrow> (window, Some KeyError)
      | Some top_y \<Rightarrow>
          (case screen (bottom_line seg) ''y'' of
             None \<Rightarrow> (window, Some KeyError)
           | Some bottom_y \<Rightarrow>
               (let height = fsub top_y bottom_y;
                    y = fsub (fint (snd (DIMENSIONS s))) top_y
                in (window @
                      [Rect (grass (colour seg))
                         (fint 0, y, fint (fst (DIMENSIONS s)), height)
                         (if fle height (fint 1) then 1 else 0)],
                    None))))"

fun render_lanes ::
  "colour \<Rightarrow> pyfloat \<times> pyfloat \<Rightarrow> pyfloat \<times> pyfloat \<Rightarrow> pyfloat \<Rightarrow> pyfloat
     \<Rightarrow> pyfloat \<Rightarrow> pyfloat \<Rightarrow> pyfloat \<Rightarrow> int list \<Rightarrow> window \<Rightarrow> window" where
  \<comment> \<open>the \<^verbatim>\<open>for lane in range(s.LANES - 1)\<close> loop of \<^verbatim>\<open>render_road\<close>; the pairs are
      \<open>(x, w)\<close> of the bottom and of the top screen record\<close>
  "render_lanes c b t y_bottom y_top bottom_line_width top_line_width step [] window = window"
| "render_lanes c b t y_bottom y_top bottom_line_width top_line_width step (lane # lanes) window =
     (let lane_percent = fmul step (fint (lane + 1));
          lane_bottom_w = fmul (fmul (snd b) (fint 2)) lane_percent;
          lane_top_w = fmul (fmul (snd t) (fint 2)) lane_percent;
          bottom_left = fadd (fsub (fst b) (snd b)) lane_bottom_w;
          bottom_right = fadd bottom_left bottom_line_width;
          top_left = fadd (fsub (fst t) (snd t)) lane_top_w;
          top_right = fadd top_left top_line_width
      in render_lanes c b t y_bottom y_top bottom_line_width top_line_width step lanes
           (window @
              [Polygon c [(bottom_left, y_bottom), (bottom_right, y_bottom),
                          (top_right, y_top), (top_left, y_top)]]))"

definition render_road_lanes ::
  "settings \<Rightarrow> 'o segment \<Rightarrow> pyfloat \<times> pyfloat \<Rightarrow> pyfloat \<times> pyfloat \<Rightarrow> pyfloat \<Rightarrow> pyfloat
     \<Rightarrow> window \<Rightarrow> window \<times> pyerror option" where
  \<comment> \<open>lines 80 to 100 of \<^verbatim>\<open>render_road\<close>: \<^verbatim>\<open>self.index / s.RUMBLE_LENGTH\<close> is int floor division\<close>
  "render_road_lanes s seg b t y_bottom y_top window =
     (if RUMBLE_LENGTH s = 0 then (window, Some ZeroDivisionError)
      else if (index seg div RUMBLE_LENGTH s) mod 2 = 0 then
        (case fdiv (snd t) (fint (LANES s * 8)) of
           Inl e \<Rightarrow> (window, Some e)
         | Inr top_line_width \<Rightarrow>
             (case fdiv (snd b) (fint (LANES s * 8)) of
                Inl e \<Rightarrow> (window, Some e)
              | Inr bottom_line_width \<Rightarrow>
                  (case fdiv (fint 1) (fint (LANES s)) of
                     Inl e \<Rightarrow> (window, Some e)
                   | Inr step \<Rightarrow>
                       (render_lanes (line (colour seg)) b t y_bottom y_top
                          bottom_line_width top_line_width step [0..LANES s - 1 - 1] window,
                        None))))
      else (window, None))"

definition render_road_edges ::
  "settings \<Rightarrow> 'o segment \<Rightarrow> pyfloat \<times> pyfloat \<Rightarrow> pyfloat \<times> pyfloat \<Rightarrow> pyfloat \<Rightarrow> pyfloat
     \<Rightarrow> window \<Rightarrow> window \<times> pyerror option" where
  \<comment> \<open>lines 48 to 78 of \<^verbatim>\<open>render_road\<close>: road, footpath strips and gutters;
      \<^verbatim>\<open>s.LANES / 2.8\<close> is a float, zero when \<open>LANES\<close> is\<close>
  "render_road_edges s seg b t y_bottom y_top window =
     (let bx = fst b; bw = snd b; tx = fst t; tw = snd t;
          w1 = window @
            [Polygon (road (colour seg))
               [(fsub bx bw, y_bottom), (fadd bx bw, y_bottom),
                (fadd tx tw, y_top), (fsub tx tw, y_top)]]
      in case fdiv (fint (LANES s)) (Fin (28 / 10)) of
           Inl e \<Rightarrow> (w1, Some e)
         | Inr d \<Rightarrow>
             (case fdiv tw d of
                Inl e \<Rightarrow> (w1, Some e)
              | Inr top_footpath_width \<Rightarrow>
                  (case fdiv bw d of
                     Inl e \<Rightarrow> (w1, Some e)
                   | Inr bottom_footpath_width \<Rightarrow>
                       (w1 @
                          [Polygon (footpath (colour seg))
                             [(fsub (fsub bx bw) bottom_footpath_width, y_bottom),
                              (fsub bx bw, y_bottom),
                              (fsub tx tw, y_top),
                              (fsub (fsub tx tw) top_footpath_width, y_top)],
                           Line (GUTTER s) (fsub bx bw, y_bottom) (fsub tx tw, y_top),
                           Polygon (footpath (colour seg))
                             [(fadd (fadd bx bw) bottom_footpath_width, y_bottom),
                              (fadd bx bw, y_bottom),
                              (fadd tx tw, y_top),
                              (fadd (fadd tx tw) top_footpath_width, y_top)],
                           Line (GUTTER s) (fadd bx bw, y_bottom) (fadd tx tw, y_top)],
                        None))))"

definition render_road ::
  "settings \<Rightarrow> 'o segment \<Rightarrow> window \<Rightarrow> window \<times> pyerror option" where
  \<comment> \<open>the six screen values are read, in this order, before the first draw call\<close>
  "render_road s seg window =
     (let top = screen (top_line seg); bottom = screen (bottom_line seg)
      in case top ''y'' of None \<Rightarrow> (window, Some KeyError) | Some top_y \<Rightarrow>
         (case bottom ''y'' of None \<Rightarrow> (window, Some KeyError) | Some bottom_y \<Rightarrow>
         (case bottom ''x'' of None \<Rightarrow> (window, Some KeyError) | Some bx \<Rightarrow>
         (case bottom ''w'' of None \<Rightarrow> (window, Some KeyError) | Some bw \<Rightarrow>
         (case top ''x'' of None \<Rightarrow> (window, Some KeyError) | Some tx \<Rightarrow>
         (case top ''w'' of None \<Rightarrow> (window, Some KeyError) | Some tw \<Rightarrow>
            (let y_top = fsub (fint (snd (DIMENSIONS s))) top_y;
                 y_bottom = fsub (fint (snd (DIMENSIONS s))) bottom_y
             in case render_road_edges s seg (bx, bw) (tx, tw) y_bottom y_top window of
                  (w2, Some e) \<Rightarrow> (w2, Some e)
                | (w2, None) \<Rightarrow>
                    render_road_lanes s seg (bx, bw) (tx, tw) y_bottom y_top w2)))))))"

fun list_remove :: "'a \<Rightarrow> 'a list \<Rightarrow> pyerror + 'a list" where
  \<comment> \<open>\<^verbatim>\<open>list.remove(x)\<close>: deletes the first item equal to \<open>x\<close>, \<^verbatim>\<open>ValueError\<close> if there is none\<close>
  "list_remove x [] = Inl ValueError"
| "list_remove x (y # ys) =
     (if y = x then Inr ys
      else (case list_remove x ys of Inl e \<Rightarrow> Inl e | Inr zs \<Rightarrow> Inr (y # zs)))"

definition remove_sprite :: "'o segment \<Rightarrow> 'o \<Rightarrow> 'o segment \<times> pyerror option" where
  \<comment> \<open>\<^verbatim>\<open>except Exception: pass\<close> swallows whatever \<^verbatim>\<open>remove\<close> raises\<close>
  "remove_sprite seg sprite =
     (case list_remove sprite (sprites seg) of
        Inl e \<Rightarrow> (seg, None)
      | Inr xs \<Rightarrow> (seg\<lparr>sprites := xs\<rparr>, None))"

section \<open>The projection as the specification words it\<close>

definition spec_projection ::
  "settings \<Rightarrow> seg_line \<Rightarrow> pyfloat \<Rightarrow> pyfloat \<Rightarrow> pyfloat \<Rightarrow> seg_line \<Rightarrow> bool" where
  \<comment> \<open>the seven assignments of the specification's projection contract, relating a line
      \<open>p\<close> before to the line \<open>p'\<close> after, for a horizontal offset, a camera position along
      the track and the player's height; \<open>half_width\<close> and \<open>half_height\<close> are the halves of
      the screen size as the code takes them; every other entry of the line stays as it is\<close>
  "spec_projection s p offset position player_y p' =
     (let half_width = fint (fst (DIMENSIONS s) div 2);
          half_height = fint (snd (DIMENSIONS s) div 2);
          camera_x = fsub (dict_get (world p) ''x'' (fint 0)) offset;
          camera_y = fsub (dict_get (world p) ''y'' (fint 0)) (fadd (CAMERA_HEIGHT s) player_y);
          camera_z = fsub (dict_get (world p) ''z'' (fint 0)) position;
          screen_s = fquot (CAMERA_DEPTH s) camera_z
      in camera p' ''x'' = Some camera_x \<and>
         camera p' ''y'' = Some camera_y \<and>
         camera p' ''z'' = Some camera_z \<and>
         screen p' ''s'' = Some screen_s \<and>
         screen p' ''x'' = Some (py_round (fadd half_width (fmul (fmul screen_s camera_x) half_width))) \<and>
         screen p' ''y'' = Some (py_round (fadd half_height (fmul (fmul screen_s camera_y) half_height))) \<and>
         screen p' ''w'' = Some (py_round (fmul (fmul screen_s (ROAD_WIDTH s)) half_width)) \<and>
         world p' = world p \<and>
         camera p' |` (- {''x'', ''y'', ''z''}) = camera p |` (- {''x'', ''y'', ''z''}) \<and>
         screen p' |` (- {''s'', ''x'', ''y'', ''w''}) = screen p |` (- {''s'', ''x'', ''y'', ''w''}))"

fun is_quad :: "colour \<Rightarrow> draw \<Rightarrow> bool" where
  \<comment> \<open>a four-cornered polygon of the given colour\<close>
  "is_quad c (Polygon c' ps) = (c' = c \<and> length ps = 4)"
| "is_quad c (Rect c' r w) = False"
| "is_quad c (Line c' a b) = False"

section \<open>A concrete track\<close>

definition example_palette :: palette where
  "example_palette =
     \<lparr>road = (100, 100, 100), grass = (0, 150, 0),
      footpath = (150, 150, 150), line = (255, 255, 255)\<rparr>"

definition example_settings :: settings where
  \<comment> \<open>the constants of the specification's scenarios: an 800 by 600 screen, camera depth
      0.84, camera height 1000, road width 2000, four lanes, rumble length 3\<close>
  "example_settings =
     \<lparr>DIMENSIONS = (800, 600), CAMERA_DEPTH = Fin (84 / 100), CAMERA_HEIGHT = fint 1000,
      SEGMENT_HEIGHT = fint 260, ROAD_WIDTH = fint 2000, LANES = 4, RUMBLE_LENGTH = 3,
      COLOURS = [''light'' \<mapsto> example_palette],
      GUTTER = (50, 50, 50)\<rparr>"

definition example_segment :: "int \<Rightarrow> nat segment" where
  \<comment> \<open>what \<open>Segment example_settings ''light'' i 0 0 0\<close> constructs: a flat, straight segment\<close>
  "example_segment i =
     \<lparr>index = i, curve = fint 0, sprites = [], competitors = [], clip = fint 0,
      colour = example_palette,
      top_line = initialize_line example_settings (fint 0) (i + 1),
      bottom_line = initialize_line example_settings (fint 0) i\<rparr>"

definition example_projected :: "int \<Rightarrow> pyfloat \<Rightarrow> nat segment \<times> pyerror option" where
  \<comment> \<open>that segment projected for a camera on the centre line at the given position\<close>
  "example_projected i position =
     project example_settings (example_segment i) (fint 0) (fint 0) (fint 0) position (fint 0)"

definition example_sprites :: "nat segment" where
  \<comment> \<open>the first segment of the track with four sprites on it, one of them twice\<close>
  "example_sprites = (example_segment 0)\<lparr>sprites := [5, 3, 7, 3]\<rparr>"

section \<open>Projection\<close>

lemmas example_defs =
  example_projected_def example_segment_def example_settings_def example_palette_def
  initialize_line_def fint_def fsub_def dict_get_def

lemmas project_defs = project_def project_line_def Let_def fdiv_def

lemma project_line_raises:
  assumes "fsub (dict_get (world (getattr seg nm)) ''z'' (fint 0)) camera_z = Fin 0"
  shows "project_line s seg nm camera_x camera_z player_y =
           (setattr seg nm ((getattr seg nm)\<lparr>camera := (camera (getattr seg nm))
              (''x'' \<mapsto> fsub (dict_get (world (getattr seg nm)) ''x'' (fint 0)) camera_x,
               ''y'' \<mapsto> fsub (dict_get (world (getattr seg nm)) ''y'' (fint 0))
                          (fadd (CAMERA_HEIGHT s) player_y),
               ''z'' \<mapsto> Fin 0)\<rparr>),
            Some ZeroDivisionError)"
  using assms by (simp add: project_line_def Let_def fdiv_def)

lemma project_line_returns:
  assumes "fsub (dict_get (world (getattr seg nm)) ''z'' (fint 0)) camera_z \<noteq> Fin 0"
  shows "snd (project_line s seg nm camera_x camera_z player_y) = None"
    and "spec_projection s (getattr seg nm) camera_x camera_z player_y
           (getattr (fst (project_line s seg nm camera_x camera_z player_y)) nm)"
  using assms
  by (cases nm; simp add: project_line_def Let_def fdiv_def spec_projection_def restrict_map_def fun_eq_iff)+

lemma project_line_other:
  "nm' \<noteq> nm \<Longrightarrow>
   getattr (fst (project_line s seg nm camera_x camera_z player_y)) nm' = getattr seg nm'"
  by (cases nm; cases nm'; simp add: project_line_def Let_def fdiv_def split: sum.splits)

lemma project_line_frame:
  "(fst (project_line s seg nm camera_x camera_z player_y))
      \<lparr>top_line := top_line seg, bottom_line := bottom_line seg\<rparr> = seg"
  by (cases nm; simp add: project_line_def Let_def fdiv_def split: sum.splits)

lemma project_line_world:
  "world (getattr (fst (project_line s seg nm camera_x camera_z player_y)) nm') =
   world (getattr seg nm')"
  by (cases nm; cases nm'; simp add: project_line_def Let_def fdiv_def split: sum.splits)

text \<open>
  Claim C1. Whenever neither line ends at camera depth zero, \<open>project\<close> returns normally
  and has stored, on each of the two lines, the seven values of the projection contract:
  the top line with the horizontal offset \<open>camera_x - curve - curve_delta\<close>, the bottom line
  with \<open>camera_x - curve\<close>. The world values, every other entry of the lines and every other
  field of the segment are as before. The half width and half height are
  \<^verbatim>\<open>s.DIMENSIONS[i] / 2\<close> on ints.
\<close>

theorem project_computes:
  assumes run: "project s seg camera_x crv curve_delta position player_y = (seg', r)"
    and top_z: "fsub (dict_get (world (top_line seg)) ''z'' (fint 0)) position \<noteq> Fin 0"
    and bottom_z: "fsub (dict_get (world (bottom_line seg)) ''z'' (fint 0)) position \<noteq> Fin 0"
  shows "r = None \<and>
         spec_projection s (top_line seg) (fsub (fsub camera_x crv) curve_delta)
           position player_y (top_line seg') \<and>
         spec_projection s (bottom_line seg) (fsub camera_x crv)
           position player_y (bottom_line seg') \<and>
         seg'\<lparr>top_line := top_line seg, bottom_line := bottom_line seg\<rparr> = seg"
proof -
  let ?t = "project_line s seg Top (fsub (fsub camera_x crv) curve_delta) position player_y"
  let ?b = "project_line s (fst ?t) Bottom (fsub camera_x crv) position player_y"
  have t_ok: "snd ?t = None"
    using top_z project_line_returns(1) [where seg = seg and nm = Top and camera_z = position] by simp
  have t_spec: "spec_projection s (top_line seg) (fsub (fsub camera_x crv) curve_delta)
                  position player_y (top_line (fst ?t))"
    using top_z project_line_returns(2) [where seg = seg and nm = Top and camera_z = position] by simp
  have t_bottom: "bottom_line (fst ?t) = bottom_line seg"
    using project_line_other [where nm' = Bottom and nm = Top] by simp
  have both: "project s seg camera_x crv curve_delta position player_y = ?b"
    using t_ok by (auto simp add: project_def split: prod.splits option.splits)
  have b_z: "fsub (dict_get (world (getattr (fst ?t) Bottom)) ''z'' (fint 0)) position \<noteq> Fin 0"
    using bottom_z t_bottom by simp
  have b_ok: "snd ?b = None"
    using b_z project_line_returns(1) [where seg = "fst ?t" and nm = Bottom and camera_z = position] by simp
  have b_spec: "spec_projection s (bottom_line seg) (fsub camera_x crv)
                  position player_y (bottom_line (fst ?b))"
    using b_z project_line_returns(2) [where seg = "fst ?t" and nm = Bottom and camera_z = position]
      t_bottom by simp
  have b_top: "top_line (fst ?b) = top_line (fst ?t)"
    using project_line_other [where nm' = Top and nm = Bottom] by simp
  have frame: "(fst ?b)\<lparr>top_line := top_line seg, bottom_line := bottom_line seg\<rparr> = seg"
  proof -
    have "(fst ?b)\<lparr>top_line := top_line (fst ?t), bottom_line := bottom_line (fst ?t)\<rparr> = fst ?t"
      by (rule project_line_frame)
    then have "((fst ?b)\<lparr>top_line := top_line (fst ?t), bottom_line := bottom_line (fst ?t)\<rparr>)
                 \<lparr>top_line := top_line seg, bottom_line := bottom_line seg\<rparr> = seg"
      using project_line_frame [where seg = seg and nm = Top] by simp
    then show ?thesis by simp
  qed
  from run both have "seg' = fst ?b" and "r = snd ?b"
    by (metis fst_conv, metis snd_conv)
  with b_ok t_spec b_spec b_top frame show ?thesis by simp
qed

text \<open>
  The claim at the first segment of the concrete track, seen from one unit in front of
  its near edge.
\<close>

theorem project_computes_witness:
  "fsub (dict_get (world (top_line (example_segment 0))) ''z'' (fint 0)) (Fin (- 1)) \<noteq> Fin 0 \<and>
   fsub (dict_get (world (bottom_line (example_segment 0))) ''z'' (fint 0)) (Fin (- 1)) \<noteq> Fin 0 \<and>
   snd (example_projected 0 (Fin (- 1))) = None \<and>
   spec_projection example_settings (top_line (example_segment 0))
     (fsub (fsub (fint 0) (fint 0)) (fint 0)) (Fin (- 1)) (fint 0)
     (top_line (fst (example_projected 0 (Fin (- 1))))) \<and>
   spec_projection example_settings (bottom_line (example_segment 0))
     (fsub (fint 0) (fint 0)) (Fin (- 1)) (fint 0)
     (bottom_line (fst (example_projected 0 (Fin (- 1))))) \<and>
   (fst (example_projected 0 (Fin (- 1))))
     \<lparr>top_line := top_line (example_segment 0), bottom_line := bottom_line (example_segment 0)\<rparr> =
   example_segment 0"
proof -
  have run: "project example_settings (example_segment 0) (fint 0) (fint 0) (fint 0) (Fin (- 1)) (fint 0) =
             (fst (example_projected 0 (Fin (- 1))), snd (example_projected 0 (Fin (- 1))))"
    by (simp add: example_projected_def)
  have t: "fsub (dict_get (world (top_line (example_segment 0))) ''z'' (fint 0)) (Fin (- 1)) \<noteq> Fin 0"
    by (simp add: example_defs)
  have b: "fsub (dict_get (world (bottom_line (example_segment 0))) ''z'' (fint 0)) (Fin (- 1)) \<noteq> Fin 0"
    by (simp add: example_defs)
  from project_computes [OF run t b] t b show ?thesis by blast
qed

text \<open>
  There the near edge lands on the centre column 400 with half-width \<open>0.84 * 2000 * 400\<close>.
\<close>

lemma scenario_1:
  "screen (bottom_line (fst (example_projected 0 (Fin (- 1))))) ''x'' = Some (Fin 400) \<and>
   screen (bottom_line (fst (example_projected 0 (Fin (- 1))))) ''w'' = Some (Fin 672000) \<and>
   camera (bottom_line (fst (example_projected 0 (Fin (- 1))))) ''z'' = Some (Fin 1)"
  by (simp add: example_defs project_defs)

text \<open>
  Claim C5, as the code has it. \<open>project\<close> raises exactly when the camera depth of one of
  the two lines is zero, and what it raises is \<^verbatim>\<open>ZeroDivisionError\<close>. If the top line is at
  depth zero, its three camera values are stored and nothing else: its screen record, the
  bottom line and every other field of the segment are as before. Otherwise the top line
  is projected in full and the bottom line, at depth zero, gets its three camera values
  and nothing else. A depth that is not zero never raises, finite or not.
\<close>

theorem project_zero_depth:
  "snd (project s seg camera_x crv curve_delta position player_y) =
     (if fsub (dict_get (world (top_line seg)) ''z'' (fint 0)) position = Fin 0 \<or>
         fsub (dict_get (world (bottom_line seg)) ''z'' (fint 0)) position = Fin 0
      then Some ZeroDivisionError else None) \<and>
   (fsub (dict_get (world (top_line seg)) ''z'' (fint 0)) position = Fin 0 \<longrightarrow>
      fst (project s seg camera_x crv curve_delta position player_y) =
        seg\<lparr>top_line := (top_line seg)\<lparr>camera := (camera (top_line seg))
          (''x'' \<mapsto> fsub (dict_get (world (top_line seg)) ''x'' (fint 0))
                      (fsub (fsub camera_x crv) curve_delta),
           ''y'' \<mapsto> fsub (dict_get (world (top_line seg)) ''y'' (fint 0))
                      (fadd (CAMERA_HEIGHT s) player_y),
           ''z'' \<mapsto> Fin 0)\<rparr>\<rparr>) \<and>
   (fsub (dict_get (world (top_line seg)) ''z'' (fint 0)) position \<noteq> Fin 0 \<and>
    fsub (dict_get (world (bottom_line seg)) ''z'' (fint 0)) position = Fin 0 \<longrightarrow>
      spec_projection s (top_line seg) (fsub (fsub camera_x crv) curve_delta)
        position player_y
        (top_line (fst (project s seg camera_x crv curve_delta position player_y))) \<and>
      bottom_line (fst (project s seg camera_x crv curve_delta position player_y)) =
        (bottom_line seg)\<lparr>camera := (camera (bottom_line seg))
          (''x'' \<mapsto> fsub (dict_get (world (bottom_line seg)) ''x'' (fint 0))
                      (fsub camera_x crv),
           ''y'' \<mapsto> fsub (dict_get (world (bottom_line seg)) ''y'' (fint 0))
                      (fadd (CAMERA_HEIGHT s) player_y),
           ''z'' \<mapsto> Fin 0)\<rparr> \<and>
      (fst (project s seg camera_x crv curve_delta position player_y))
        \<lparr>top_line := top_line seg, bottom_line := bottom_line seg\<rparr> = seg)"
proof -
  let ?tz = "fsub (dict_get (world (top_line seg)) ''z'' (fint 0)) position"
  let ?bz = "fsub (dict_get (world (bottom_line seg)) ''z'' (fint 0)) position"
  let ?t = "project_line s seg Top (fsub (fsub camera_x crv) curve_delta) position player_y"
  let ?p = "project s seg camera_x crv curve_delta position player_y"
  show ?thesis
  proof (cases "?tz = Fin 0")
    case True
    then have "?t = (seg\<lparr>top_line := (top_line seg)\<lparr>camera := (camera (top_line seg))
          (''x'' \<mapsto> fsub (dict_get (world (top_line seg)) ''x'' (fint 0))
                      (fsub (fsub camera_x crv) curve_delta),
           ''y'' \<mapsto> fsub (dict_get (world (top_line seg)) ''y'' (fint 0))
                      (fadd (CAMERA_HEIGHT s) player_y),
           ''z'' \<mapsto> Fin 0)\<rparr>\<rparr>, Some ZeroDivisionError)"
      using project_line_raises [where seg = seg and nm = Top and camera_z = position] by simp
    then have "?p = (seg\<lparr>top_line := (top_line seg)\<lparr>camera := (camera (top_line seg))
          (''x'' \<mapsto> fsub (dict_get (world (top_line seg)) ''x'' (fint 0))
                      (fsub (fsub camera_x crv) curve_delta),
           ''y'' \<mapsto> fsub (dict_get (world (top_line seg)) ''y'' (fint 0))
                      (fadd (CAMERA_HEIGHT s) player_y),
           ''z'' \<mapsto> Fin 0)\<rparr>\<rparr>, Some ZeroDivisionError)"
      by (simp add: project_def)
    with True show ?thesis by simp
  next
    case False
    then have t_ok: "snd ?t = None"
      using project_line_returns(1) [where seg = seg and nm = Top and camera_z = position] by simp
    have t_spec: "spec_projection s (top_line seg) (fsub (fsub camera_x crv) curve_delta)
                    position player_y (top_line (fst ?t))"
      using False project_line_returns(2) [where seg = seg and nm = Top and camera_z = position]
      by simp
    have t_bottom: "bottom_line (fst ?t) = bottom_line seg"
      using project_line_other [where nm' = Bottom and nm = Top] by simp
    let ?b = "project_line s (fst ?t) Bottom (fsub camera_x crv) position player_y"
    have both: "?p = ?b"
      using t_ok by (auto simp add: project_def split: prod.splits option.splits)
    have b_top: "top_line (fst ?b) = top_line (fst ?t)"
      using project_line_other [where nm' = Top and nm = Bottom] by simp
    have frame: "(fst ?b)\<lparr>top_line := top_line seg, bottom_line := bottom_line seg\<rparr> = seg"
    proof -
      have "(fst ?b)\<lparr>top_line := top_line (fst ?t), bottom_line := bottom_line (fst ?t)\<rparr> = fst ?t"
        by (rule project_line_frame)
      then have "((fst ?b)\<lparr>top_line := top_line (fst ?t), bottom_line := bottom_line (fst ?t)\<rparr>)
                   \<lparr>top_line := top_line seg, bottom_line := bottom_line seg\<rparr> = seg"
        using project_line_frame [where seg = seg and nm = Top] by simp
      then show ?thesis by simp
    qed
    show ?thesis
    proof (cases "?bz = Fin 0")
      case True
      then have "fsub (dict_get (world (getattr (fst ?t) Bottom)) ''z'' (fint 0)) position = Fin 0"
        using t_bottom by simp
      from project_line_raises [OF this, where s = s and camera_x = "fsub camera_x crv"
          and player_y = player_y]
      have "snd ?b = Some ZeroDivisionError"
        and "bottom_line (fst ?b) =
          (bottom_line seg)\<lparr>camera := (camera (bottom_line seg))
            (''x'' \<mapsto> fsub (dict_get (world (bottom_line seg)) ''x'' (fint 0))
                        (fsub camera_x crv),
             ''y'' \<mapsto> fsub (dict_get (world (bottom_line seg)) ''y'' (fint 0))
                        (fadd (CAMERA_HEIGHT s) player_y),
             ''z'' \<mapsto> Fin 0)\<rparr>"
        using t_bottom by simp_all
      with False True both t_spec b_top frame show ?thesis by simp
    next
      case bz: False
      then have "fsub (dict_get (world (getattr (fst ?t) Bottom)) ''z'' (fint 0)) position \<noteq> Fin 0"
        using t_bottom by simp
      then have "snd ?b = None"
        using project_line_returns(1) [where seg = "fst ?t" and nm = Bottom and camera_z = position]
        by simp
      with False bz both show ?thesis by simp
    qed
  qed
qed

text \<open>
  The first segment of the concrete track with the camera at its far edge (the top line
  raises) and at its near edge (the bottom line raises after the top line is projected).
\<close>

theorem project_zero_depth_witness:
  "fsub (dict_get (world (top_line (example_segment 0))) ''z'' (fint 0)) (Fin 260) = Fin 0 \<and>
   snd (example_projected 0 (Fin 260)) = Some ZeroDivisionError \<and>
   camera (top_line (fst (example_projected 0 (Fin 260)))) ''z'' = Some (Fin 0) \<and>
   screen (top_line (fst (example_projected 0 (Fin 260)))) = screen (top_line (example_segment 0)) \<and>
   bottom_line (fst (example_projected 0 (Fin 260))) = bottom_line (example_segment 0) \<and>
   fsub (dict_get (world (top_line (example_segment 0))) ''z'' (fint 0)) (Fin 0) \<noteq> Fin 0 \<and>
   fsub (dict_get (world (bottom_line (example_segment 0))) ''z'' (fint 0)) (Fin 0) = Fin 0 \<and>
   snd (example_projected 0 (Fin 0)) = Some ZeroDivisionError \<and>
   camera (bottom_line (fst (example_projected 0 (Fin 0)))) ''z'' = Some (Fin 0) \<and>
   screen (bottom_line (fst (example_projected 0 (Fin 0)))) = screen (bottom_line (example_segment 0))"
proof -
  have t: "fsub (dict_get (world (top_line (example_segment 0))) ''z'' (fint 0)) (Fin 260) = Fin 0"
    by (simp add: example_defs)
  have nt: "fsub (dict_get (world (top_line (example_segment 0))) ''z'' (fint 0)) (Fin 0) \<noteq> Fin 0"
    by (simp add: example_defs)
  have b: "fsub (dict_get (world (bottom_line (example_segment 0))) ''z'' (fint 0)) (Fin 0) = Fin 0"
    by (simp add: example_defs)
  note far = project_zero_depth [where seg = "example_segment 0" and position = "Fin 260"
      and s = example_settings and camera_x = "fint 0" and crv = "fint 0"
      and curve_delta = "fint 0" and player_y = "fint 0", folded example_projected_def]
  note near = project_zero_depth [where seg = "example_segment 0" and position = "Fin 0"
      and s = example_settings and camera_x = "fint 0" and crv = "fint 0"
      and curve_delta = "fint 0" and player_y = "fint 0", folded example_projected_def]
  from far t have f1: "snd (example_projected 0 (Fin 260)) = Some ZeroDivisionError"
    by simp
  from far t have f2: "fst (example_projected 0 (Fin 260)) =
      (example_segment 0)\<lparr>top_line := (top_line (example_segment 0))
        \<lparr>camera := (camera (top_line (example_segment 0)))
          (''x'' \<mapsto> fsub (dict_get (world (top_line (example_segment 0))) ''x'' (fint 0))
                      (fsub (fsub (fint 0) (fint 0)) (fint 0)),
           ''y'' \<mapsto> fsub (dict_get (world (top_line (example_segment 0))) ''y'' (fint 0))
                      (fadd (CAMERA_HEIGHT example_settings) (fint 0)),
           ''z'' \<mapsto> Fin 0)\<rparr>\<rparr>"
    by blast
  from near nt b have n1: "snd (example_projected 0 (Fin 0)) = Some ZeroDivisionError"
    by simp
  from near nt b have n2: "bottom_line (fst (example_projected 0 (Fin 0))) =
      (bottom_line (example_segment 0))\<lparr>camera := (camera (bottom_line (example_segment 0)))
          (''x'' \<mapsto> fsub (dict_get (world (bottom_line (example_segment 0))) ''x'' (fint 0))
                      (fsub (fint 0) (fint 0)),
           ''y'' \<mapsto> fsub (dict_get (world (bottom_line (example_segment 0))) ''y'' (fint 0))
                      (fadd (CAMERA_HEIGHT example_settings) (fint 0)),
           ''z'' \<mapsto> Fin 0)\<rparr>"
    by blast
  show ?thesis
    using t nt b f1 n1 by (simp add: f2 n2)
qed

text \<open>
  With the camera infinitely far along the track both camera depths are \<open>-inf\<close>, yet
  \<open>project\<close> returns normally and stores screen values: the scale is \<open>0.84 / -inf = 0\<close>,
  so both lines collapse to the centre of the screen with width 0.
\<close>

theorem project_infinite_depth_counterexample:
  "camera (top_line (fst (example_projected 0 PInf))) ''z'' = Some NInf \<and>
   camera (bottom_line (fst (example_projected 0 PInf))) ''z'' = Some NInf \<and>
   snd (example_projected 0 PInf) = None \<and>
   screen (top_line (fst (example_projected 0 PInf))) ''x'' = Some (Fin 400) \<and>
   screen (top_line (fst (example_projected 0 PInf))) ''y'' = Some (Fin 300) \<and>
   screen (top_line (fst (example_projected 0 PInf))) ''w'' = Some (Fin 0)"
  by (simp add: example_defs project_defs)

text \<open>
  Claim C7. Projecting a second time with the same arguments changes nothing: the segment
  and the outcome after two calls are those after one call. This holds for every segment
  and every argument, also when the call raises.
\<close>

theorem project_twice:
  "project s (fst (project s seg camera_x crv curve_delta position player_y))
     camera_x crv curve_delta position player_y =
   project s seg camera_x crv curve_delta position player_y"
  by (simp add: project_def project_line_def Let_def fdiv_def
      split: prod.splits option.splits sum.splits if_splits)





lemma project_stores:
  assumes "project s seg0 camera_x crv curve_delta position player_y = (seg, None)"
  shows "\<exists>cz top_y tx tw bottom_y bx bw.
           camera (top_line seg) ''z'' = Some cz \<and>
           screen (top_line seg) ''y'' = Some top_y \<and>
           screen (top_line seg) ''x'' = Some tx \<and>
           screen (top_line seg) ''w'' = Some tw \<and>
           screen (bottom_line seg) ''y'' = Some bottom_y \<and>
           screen (bottom_line seg) ''x'' = Some bx \<and>
           screen (bottom_line seg) ''w'' = Some bw \<and>
           index seg = index seg0 \<and> colour seg = colour seg0"
  using assms
  by (auto simp add: project_defs split: prod.splits option.splits sum.splits if_splits)

section \<open>Adjacent segments\<close>



section \<open>Culling\<close>

text \<open>
  Claim C2. On a segment that \<open>project\<close> has returned normally, \<open>should_ignore\<close> raises
  nothing and answers with the disjunction of its three tests: the far line at or
  nearer than the camera depth, the far line at or below the horizon \<open>y_coverage\<close>, the
  near line at or above the far line on screen. So each test alone makes it true, and
  it is false exactly when all three fail.
\<close>

theorem should_ignore_cases:
  assumes "project s seg0 camera_x crv curve_delta position player_y = (seg, None)"
  shows "\<exists>cz top_y bottom_y.
           camera (top_line seg) ''z'' = Some cz \<and>
           screen (top_line seg) ''y'' = Some top_y \<and>
           screen (bottom_line seg) ''y'' = Some bottom_y \<and>
           should_ignore s seg y_coverage =
             Inr (fle cz (CAMERA_DEPTH s) \<or> fle top_y y_coverage \<or> fge bottom_y top_y)"
proof -
  from project_stores [OF assms] obtain cz top_y bottom_y where
    "camera (top_line seg) ''z'' = Some cz" "screen (top_line seg) ''y'' = Some top_y"
    "screen (bottom_line seg) ''y'' = Some bottom_y"
    by blast
  then show ?thesis by (simp add: should_ignore_def)
qed

theorem should_ignore_cases_witness:
  "project example_settings (example_segment 387) (fint 0) (fint 0) (fint 0) (fint 0) (fint 0) =
     (fst (example_projected 387 (fint 0)), None) \<and>
   should_ignore example_settings (fst (example_projected 387 (fint 0))) (fint 0) = Inr False \<and>
   should_ignore example_settings (fst (example_projected 387 (fint 0))) (fint 298) = Inr True"
proof -
  let ?seg = "fst (example_projected 387 (fint 0))"
  have run: "project example_settings (example_segment 387) (fint 0) (fint 0) (fint 0) (fint 0) (fint 0) =
     (?seg, None)"
    by (simp add: example_defs project_defs)
  have cz: "camera (top_line ?seg) ''z'' = Some (Fin 100880)"
    by (simp add: example_defs project_defs)
  have ty: "screen (top_line ?seg) ''y'' = Some (Fin 298)"
    by (simp add: example_defs project_defs)
  have bty: "screen (bottom_line ?seg) ''y'' = Some (Fin 297)"
    by (simp add: example_defs project_defs)
  from should_ignore_cases [OF run, where y_coverage = "fint 0"] cz ty bty
  have "should_ignore example_settings ?seg (fint 0) =
          Inr (fle (Fin 100880) (CAMERA_DEPTH example_settings) \<or> fle (Fin 298) (fint 0) \<or>
               fge (Fin 297) (Fin 298))"
    by auto
  moreover
  from should_ignore_cases [OF run, where y_coverage = "fint 298"] cz ty bty
  have "should_ignore example_settings ?seg (fint 298) =
          Inr (fle (Fin 100880) (CAMERA_DEPTH example_settings) \<or> fle (Fin 298) (fint 298) \<or>
               fge (Fin 297) (Fin 298))"
    by auto
  ultimately show ?thesis
    using run by (simp add: example_settings_def fint_def fge_def)
qed

section \<open>Grass\<close>

lemma border_covers_thin_rect:
  "in_rect (x, y, w, h) p \<Longrightarrow>
   rect_paints (x, y, w, h) (if fle h (fint 1) then 1 else 0) p"
  by (cases x; cases y; cases w; cases h; cases p) (auto simp add: fint_def)

text \<open>
  Claim C4. On a projected segment \<open>render_grass\<close> issues exactly one rectangle draw, in the
  grass colour of the segment's palette, from the left edge across the full screen width,
  with its top at \<open>SCREEN_HEIGHT - top.screen.y\<close> and of height
  \<open>top.screen.y - bottom.screen.y\<close>. The width argument of the draw is \<^verbatim>\<open>int(height <= 1)\<close>:
  0 when the height is above 1, which fills the rectangle, and 1 when the height is 1 or
  less, which draws its border one pixel thick. In both cases every pixel of the rectangle
  is coloured, since a border one pixel thick covers a rectangle at most one pixel high.
\<close>

theorem render_grass_rectangle:
  assumes "project s seg0 camera_x crv curve_delta position player_y = (seg, None)"
  shows "\<exists>top_y bottom_y.
           screen (top_line seg) ''y'' = Some top_y \<and>
           screen (bottom_line seg) ''y'' = Some bottom_y \<and>
           render_grass s seg window =
             (window @
                [Rect (grass (colour seg))
                   (fint 0, fsub (fint (snd (DIMENSIONS s))) top_y,
                    fint (fst (DIMENSIONS s)), fsub top_y bottom_y)
                   (if fle (fsub top_y bottom_y) (fint 1) then 1 else 0)],
              None) \<and>
           (\<forall>p. in_rect (fint 0, fsub (fint (snd (DIMENSIONS s))) top_y,
                         fint (fst (DIMENSIONS s)), fsub top_y bottom_y) p \<longrightarrow>
                rect_paints (fint 0, fsub (fint (snd (DIMENSIONS s))) top_y,
                             fint (fst (DIMENSIONS s)), fsub top_y bottom_y)
                  (if fle (fsub top_y bottom_y) (fint 1) then 1 else 0) p)"
proof -
  from project_stores [OF assms] obtain top_y bottom_y where keys:
    "screen (top_line seg) ''y'' = Some top_y" "screen (bottom_line seg) ''y'' = Some bottom_y"
    by blast
  then have "render_grass s seg window =
             (window @
                [Rect (grass (colour seg))
                   (fint 0, fsub (fint (snd (DIMENSIONS s))) top_y,
                    fint (fst (DIMENSIONS s)), fsub top_y bottom_y)
                   (if fle (fsub top_y bottom_y) (fint 1) then 1 else 0)],
              None)"
    by (simp add: render_grass_def Let_def)
  with keys show ?thesis
    using border_covers_thin_rect by blast
qed

text \<open>
  Segment 387 of the concrete track, seen from the start of the track, is one pixel high
  (rows 297 to 298) and passes the culling test. Its grass is drawn with width argument 1,
  and the pixels of its row 302 from column 0 to column 799 are all coloured.
\<close>

theorem render_grass_rectangle_witness:
  "project example_settings (example_segment 387) (fint 0) (fint 0) (fint 0) (fint 0) (fint 0) =
     (fst (example_projected 387 (fint 0)), None) \<and>
   render_grass example_settings (fst (example_projected 387 (fint 0))) [] =
     ([Rect (0, 150, 0) (Fin 0, Fin 302, Fin 800, Fin 1) 1], None) \<and>
   in_rect (Fin 0, Fin 302, Fin 800, Fin 1) (0, 302) \<and>
   rect_paints (Fin 0, Fin 302, Fin 800, Fin 1) 1 (0, 302) \<and>
   in_rect (Fin 0, Fin 302, Fin 800, Fin 1) (400, 302) \<and>
   rect_paints (Fin 0, Fin 302, Fin 800, Fin 1) 1 (400, 302) \<and>
   in_rect (Fin 0, Fin 302, Fin 800, Fin 1) (799, 302) \<and>
   rect_paints (Fin 0, Fin 302, Fin 800, Fin 1) 1 (799, 302)"
proof -
  let ?seg = "fst (example_projected 387 (fint 0))"
  have run: "project example_settings (example_segment 387) (fint 0) (fint 0) (fint 0) (fint 0) (fint 0) =
     (?seg, None)"
    by (simp add: example_defs project_defs)
  have ty: "screen (top_line ?seg) ''y'' = Some (Fin 298)"
    by (simp add: example_defs project_defs)
  have bty: "screen (bottom_line ?seg) ''y'' = Some (Fin 297)"
    by (simp add: example_defs project_defs)
  have col: "grass (colour ?seg) = (0, 150, 0)"
    by (simp add: example_defs project_defs)
  have rect: "(fint 0, fsub (fint (snd (DIMENSIONS example_settings))) (Fin 298),
               fint (fst (DIMENSIONS example_settings)), fsub (Fin 298) (Fin 297)) =
              (Fin 0, Fin 302, Fin 800, Fin 1)"
    by (simp add: example_settings_def fint_def fsub_def)
  have width: "(if fle (fsub (Fin 298) (Fin 297)) (fint 1) then 1 else 0) = (1::int)"
    by (simp add: fint_def fsub_def)
  from render_grass_rectangle [OF run, where window = "[]"] ty bty
  have "render_grass example_settings ?seg [] =
          ([Rect (grass (colour ?seg))
             (fint 0, fsub (fint (snd (DIMENSIONS example_settings))) (Fin 298),
              fint (fst (DIMENSIONS example_settings)), fsub (Fin 298) (Fin 297))
             (if fle (fsub (Fin 298) (Fin 297)) (fint 1) then 1 else 0)], None) \<and>
        (\<forall>p. in_rect (fint 0, fsub (fint (snd (DIMENSIONS example_settings))) (Fin 298),
                      fint (fst (DIMENSIONS example_settings)), fsub (Fin 298) (Fin 297)) p \<longrightarrow>
             rect_paints (fint 0, fsub (fint (snd (DIMENSIONS example_settings))) (Fin 298),
                          fint (fst (DIMENSIONS example_settings)), fsub (Fin 298) (Fin 297))
               (if fle (fsub (Fin 298) (Fin 297)) (fint 1) then 1 else 0) p)"
    by auto
  then have "render_grass example_settings ?seg [] =
          ([Rect (0, 150, 0) (Fin 0, Fin 302, Fin 800, Fin 1) 1], None) \<and>
        (\<forall>p. in_rect (Fin 0, Fin 302, Fin 800, Fin 1) p \<longrightarrow>
             rect_paints (Fin 0, Fin 302, Fin 800, Fin 1) 1 p)"
    unfolding rect width col .
  then have draw: "render_grass example_settings ?seg [] =
          ([Rect (0, 150, 0) (Fin 0, Fin 302, Fin 800, Fin 1) 1], None)"
    and cover: "\<And>p. in_rect (Fin 0, Fin 302, Fin 800, Fin 1) p \<Longrightarrow>
                   rect_paints (Fin 0, Fin 302, Fin 800, Fin 1) 1 p"
    by blast+
  have inside: "in_rect (Fin 0, Fin 302, Fin 800, Fin 1) (0, 302)"
    "in_rect (Fin 0, Fin 302, Fin 800, Fin 1) (400, 302)"
    "in_rect (Fin 0, Fin 302, Fin 800, Fin 1) (799, 302)"
    by simp_all
  from run draw inside cover [OF inside(1)] cover [OF inside(2)] cover [OF inside(3)]
  show ?thesis by blast
qed

text \<open>The near segment of the concrete track is high on screen and is drawn with width 0.\<close>

lemma render_grass_near:
  "fst (render_grass example_settings (fst (example_projected 0 (Fin (- 1)))) []) =
     [Rect (0, 150, 0) (Fin 0, Fin 1266, Fin 800, Fin 251034) 0]"
  by (simp add: example_defs project_defs render_grass_def)

section \<open>Road\<close>

lemma render_lanes_appends:
  "\<exists>ys. render_lanes c b t y_bottom y_top blw tlw step xs window = window @ ys \<and>
        length ys = length xs \<and> list_all (is_quad c) ys"
proof (induction xs arbitrary: window)
  case Nil
  then show ?case by simp
next
  case (Cons lane xs)
  let ?p = "Polygon c
      [(fadd (fsub (fst b) (snd b)) (fmul (fmul (snd b) (fint 2)) (fmul step (fint (lane + 1)))), y_bottom),
       (fadd (fadd (fsub (fst b) (snd b)) (fmul (fmul (snd b) (fint 2)) (fmul step (fint (lane + 1))))) blw, y_bottom),
       (fadd (fadd (fsub (fst t) (snd t)) (fmul (fmul (snd t) (fint 2)) (fmul step (fint (lane + 1))))) tlw, y_top),
       (fadd (fsub (fst t) (snd t)) (fmul (fmul (snd t) (fint 2)) (fmul step (fint (lane + 1)))), y_top)]"
  from Cons.IH [of "window @ [?p]"] obtain ys where
    ys: "render_lanes c b t y_bottom y_top blw tlw step xs (window @ [?p]) = (window @ [?p]) @ ys"
      "length ys = length xs" "list_all (is_quad c) ys"
    by blast
  have "render_lanes c b t y_bottom y_top blw tlw step (lane # xs) window = window @ (?p # ys)"
    using ys(1) by (simp add: Let_def)
  moreover have "length (?p # ys) = length (lane # xs)"
    using ys(2) by simp
  moreover have "list_all (is_quad c) (?p # ys)"
    using ys(3) by simp
  ultimately show ?case by blast
qed

lemma render_road_edges_draws:
  assumes "LANES s \<noteq> 0"
  shows "\<exists>edges. render_road_edges s seg b t y_bottom y_top window = (window @ edges, None) \<and>
                 length edges = 5"
proof -
  have "fdiv (fint (LANES s)) (Fin (28 / 10)) = Inr (Fin (of_int (LANES s) / (28 / 10)))"
    by (simp add: fdiv_def fint_def)
  moreover have "Fin (of_int (LANES s) / (28 / 10)) \<noteq> Fin 0"
    using assms by simp
  ultimately show ?thesis
    by (simp add: render_road_edges_def Let_def fdiv_def del: divide_divide_eq_left)
qed

lemma render_road_lanes_draws:
  assumes "LANES s \<noteq> 0" and "RUMBLE_LENGTH s \<noteq> 0"
  shows "\<exists>lanes. render_road_lanes s seg b t y_bottom y_top window = (window @ lanes, None) \<and>
                 list_all (is_quad (line (colour seg))) lanes \<and>
                 length lanes =
                   (if (index seg div RUMBLE_LENGTH s) mod 2 = 0 then nat (LANES s - 1) else 0)"
proof (cases "(index seg div RUMBLE_LENGTH s) mod 2 = 0")
  case True
  have nz: "fint (LANES s * 8) \<noteq> Fin 0" "fint (LANES s) \<noteq> Fin 0"
    using assms(1) by (simp_all add: fint_def)
  from render_lanes_appends [of "line (colour seg)" b t y_bottom y_top
      "fquot (snd b) (fint (LANES s * 8))" "fquot (snd t) (fint (LANES s * 8))"
      "fquot (fint 1) (fint (LANES s))" "[0..LANES s - 1 - 1]" window]
  obtain ys where ys:
    "render_lanes (line (colour seg)) b t y_bottom y_top
       (fquot (snd b) (fint (LANES s * 8))) (fquot (snd t) (fint (LANES s * 8)))
       (fquot (fint 1) (fint (LANES s))) [0..LANES s - 1 - 1] window = window @ ys"
    "length ys = length [0..LANES s - 1 - 1]" "list_all (is_quad (line (colour seg))) ys"
    by blast
  have "render_road_lanes s seg b t y_bottom y_top window = (window @ ys, None)"
    using True assms(2) nz ys(1) by (simp add: render_road_lanes_def fdiv_def)
  moreover have "length ys = nat (LANES s - 1)"
    using ys(2) by simp
  ultimately show ?thesis using True ys(3) by simp
next
  case False
  then have "render_road_lanes s seg b t y_bottom y_top window = (window @ [], None)"
    using assms(2) by (simp add: render_road_lanes_def)
  with False show ?thesis by simp
qed

text \<open>
  Claim C3. On a projected segment, with at least one lane and a rumble length that is
  not zero, \<open>render_road\<close> returns normally having issued five draws for the road, the
  footpaths and the gutters, followed by the lane separators and nothing else. The
  separators are quadrilaterals in the palette's line colour, \<open>LANES - 1\<close> of them when
  \<open>(index / RUMBLE_LENGTH) % 2 == 0\<close> in int arithmetic and none otherwise. With four
  lanes and rumble length 3 the indices 0, 1, 2 get three separators each and the
  indices 3, 4, 5 none.
\<close>

theorem render_road_lane_separators:
  assumes projected: "project s seg0 camera_x crv curve_delta position player_y = (seg, None)"
    and lanes: "1 \<le> LANES s"
    and rumble: "RUMBLE_LENGTH s \<noteq> 0"
  shows "\<exists>edges lanes.
           render_road s seg window = (window @ edges @ lanes, None) \<and>
           length edges = 5 \<and>
           list_all (is_quad (line (colour seg))) lanes \<and>
           length lanes =
             (if (index seg div RUMBLE_LENGTH s) mod 2 = 0 then nat (LANES s - 1) else 0) \<and>
           (LANES s = 4 \<and> RUMBLE_LENGTH s = 3 \<and> 0 \<le> index seg \<and> index seg \<le> 5 \<longrightarrow>
              length lanes = (if index seg \<le> 2 then 3 else 0))"
proof -
  from project_stores [OF projected] obtain top_y tx tw bottom_y bx bw where keys:
    "screen (top_line seg) ''y'' = Some top_y" "screen (top_line seg) ''x'' = Some tx"
    "screen (top_line seg) ''w'' = Some tw" "screen (bottom_line seg) ''y'' = Some bottom_y"
    "screen (bottom_line seg) ''x'' = Some bx" "screen (bottom_line seg) ''w'' = Some bw"
    by blast
  let ?yt = "fsub (fint (snd (DIMENSIONS s))) top_y"
  let ?yb = "fsub (fint (snd (DIMENSIONS s))) bottom_y"
  from lanes have l0: "LANES s \<noteq> 0" by simp
  from render_road_edges_draws [OF l0] obtain edges where edges:
    "render_road_edges s seg (bx, bw) (tx, tw) ?yb ?yt window = (window @ edges, None)"
    "length edges = 5"
    by blast
  from render_road_lanes_draws [OF l0 rumble] obtain ls where ls:
    "render_road_lanes s seg (bx, bw) (tx, tw) ?yb ?yt (window @ edges) =
       ((window @ edges) @ ls, None)"
    "list_all (is_quad (line (colour seg))) ls"
    "length ls = (if (index seg div RUMBLE_LENGTH s) mod 2 = 0 then nat (LANES s - 1) else 0)"
    by blast
  have run: "render_road s seg window = (window @ edges @ ls, None)"
    using keys edges(1) ls(1) by (simp add: render_road_def)
  have scenario: "LANES s = 4 \<and> RUMBLE_LENGTH s = 3 \<and> 0 \<le> index seg \<and> index seg \<le> 5 \<longrightarrow>
              length ls = (if index seg \<le> 2 then 3 else 0)"
  proof
    assume h: "LANES s = 4 \<and> RUMBLE_LENGTH s = 3 \<and> 0 \<le> index seg \<and> index seg \<le> 5"
    then have "((index seg div 3) mod 2 = 0) = (index seg \<le> 2)" by presburger
    with h ls(3) show "length ls = (if index seg \<le> 2 then 3 else 0)" by simp
  qed
  from run edges(2) ls(2) ls(3) scenario show ?thesis by blast
qed

text \<open>Segments 1 and 4 of the concrete track.\<close>

theorem render_road_lane_separators_witness:
  "project example_settings (example_segment 1) (fint 0) (fint 0) (fint 0) (fint 0) (fint 0) =
     (fst (example_projected 1 (fint 0)), None) \<and>
   project example_settings (example_segment 4) (fint 0) (fint 0) (fint 0) (fint 0) (fint 0) =
     (fst (example_projected 4 (fint 0)), None) \<and>
   1 \<le> LANES example_settings \<and>
   RUMBLE_LENGTH example_settings \<noteq> 0 \<and>
   (\<exists>edges lanes.
      render_road example_settings (fst (example_projected 1 (fint 0))) [] = (edges @ lanes, None) \<and>
      length edges = 5 \<and> length lanes = 3) \<and>
   (\<exists>edges lanes.
      render_road example_settings (fst (example_projected 4 (fint 0))) [] = (edges @ lanes, None) \<and>
      length edges = 5 \<and> length lanes = 0)"
proof -
  have run1: "project example_settings (example_segment 1) (fint 0) (fint 0) (fint 0) (fint 0) (fint 0) =
     (fst (example_projected 1 (fint 0)), None)"
    by (simp add: example_defs project_defs)
  have run4: "project example_settings (example_segment 4) (fint 0) (fint 0) (fint 0) (fint 0) (fint 0) =
     (fst (example_projected 4 (fint 0)), None)"
    by (simp add: example_defs project_defs)
  have l: "1 \<le> LANES example_settings" and r: "RUMBLE_LENGTH example_settings \<noteq> 0"
    and l4: "LANES example_settings = 4" and r3: "RUMBLE_LENGTH example_settings = 3"
    by (simp_all add: example_settings_def)
  have i1: "index (fst (example_projected 1 (fint 0))) = 1"
    and i4: "index (fst (example_projected 4 (fint 0))) = 4"
    by (simp_all add: example_defs project_defs)
  from render_road_lane_separators [OF run1 l r, where window = "[]"] l4 r3 i1
  have one: "\<exists>edges lanes.
      render_road example_settings (fst (example_projected 1 (fint 0))) [] = (edges @ lanes, None) \<and>
      length edges = 5 \<and> length lanes = 3"
    by auto
  from render_road_lane_separators [OF run4 l r, where window = "[]"] l4 r3 i4
  have four: "\<exists>edges lanes.
      render_road example_settings (fst (example_projected 4 (fint 0))) [] = (edges @ lanes, None) \<and>
      length edges = 5 \<and> length lanes = 0"
    by auto
  from run1 run4 l r one four show ?thesis by blast
qed

section \<open>Sprites\<close>

lemma list_remove_absent: "x \<notin> set xs \<Longrightarrow> list_remove x xs = Inl ValueError"
  by (induction xs) auto

lemma list_remove_first:
  "x \<in> set xs \<Longrightarrow>
   \<exists>pre post. xs = pre @ x # post \<and> x \<notin> set pre \<and> list_remove x xs = Inr (pre @ post)"
proof (induction xs)
  case Nil
  then show ?case by simp
next
  case (Cons y ys)
  show ?case
  proof (cases "y = x")
    case True
    then have "y # ys = [] @ x # ys \<and> x \<notin> set [] \<and> list_remove x (y # ys) = Inr ([] @ ys)"
      by simp
    then show ?thesis by blast
  next
    case False
    with Cons.prems have "x \<in> set ys" by simp
    from Cons.IH [OF this] obtain pre post where
      "ys = pre @ x # post" "x \<notin> set pre" "list_remove x ys = Inr (pre @ post)"
      by blast
    with False have "y # ys = (y # pre) @ x # post \<and> x \<notin> set (y # pre) \<and>
        list_remove x (y # ys) = Inr ((y # pre) @ post)"
      by simp
    then show ?thesis by blast
  qed
qed

lemma list_remove_remove1: "x \<in> set xs \<Longrightarrow> list_remove x xs = Inr (remove1 x xs)"
  by (induction xs) auto

text \<open>
  Claim C9. \<open>remove_sprite\<close> always returns normally. A sprite that is not in the
  collection leaves the whole segment as it is. A sprite that is in the collection is
  taken out once: the collection loses one item, an occurrence of that sprite, and
  nothing else about the segment changes.
\<close>

theorem remove_sprite_absent_or_present:
  "snd (remove_sprite seg sprite) = None \<and>
   (sprite \<notin> set (sprites seg) \<longrightarrow> fst (remove_sprite seg sprite) = seg) \<and>
   (sprite \<in> set (sprites seg) \<longrightarrow>
      fst (remove_sprite seg sprite) = seg\<lparr>sprites := remove1 sprite (sprites seg)\<rparr> \<and>
      count_list (sprites (fst (remove_sprite seg sprite))) sprite + 1 =
        count_list (sprites seg) sprite \<and>
      length (sprites (fst (remove_sprite seg sprite))) + 1 = length (sprites seg))"
proof -
  have count: "x \<in> set xs \<Longrightarrow> count_list (remove1 x xs) x + 1 = count_list xs x" for x :: 'a and xs
    by (induction xs) auto
  have len: "x \<in> set xs \<Longrightarrow> length (remove1 x xs) + 1 = length xs" for x :: 'a and xs
    by (induction xs) auto
  show ?thesis
    using count [of sprite "sprites seg"] len [of sprite "sprites seg"]
    by (auto simp add: remove_sprite_def list_remove_absent list_remove_remove1
        split: sum.splits)
qed

theorem remove_sprite_absent_or_present_witness:
  "(9::nat) \<notin> set (sprites example_sprites) \<and>
   (3::nat) \<in> set (sprites example_sprites) \<and>
   remove_sprite example_sprites 9 = (example_sprites, None) \<and>
   remove_sprite example_sprites 3 = (example_sprites\<lparr>sprites := [5, 7, 3]\<rparr>, None)"
proof -
  have a: "(9::nat) \<notin> set (sprites example_sprites)"
    and p: "(3::nat) \<in> set (sprites example_sprites)"
    and r: "remove1 3 (sprites example_sprites) = [5, 7, 3]"
    by (simp_all add: example_sprites_def)
  from remove_sprite_absent_or_present [of example_sprites 9] a
  have "remove_sprite example_sprites 9 = (example_sprites, None)"
    by (metis prod.collapse)
  moreover from remove_sprite_absent_or_present [of example_sprites 3] p r
  have "remove_sprite example_sprites 3 = (example_sprites\<lparr>sprites := [5, 7, 3]\<rparr>, None)"
    by (metis prod.collapse)
  ultimately show ?thesis using a p by blast
qed

text \<open>
  Claim C10. When the sprite occurs more than once, the occurrence taken out is the
  earliest: everything before it, where the sprite does not occur, and everything after
  it, where the sprite still occurs, stays in place and in order.
\<close>

theorem remove_sprite_earliest:
  assumes "1 < count_list (sprites seg) sprite"
  shows "\<exists>pre post.
           sprites seg = pre @ sprite # post \<and>
           sprite \<notin> set pre \<and>
           sprite \<in> set post \<and>
           remove_sprite seg sprite = (seg\<lparr>sprites := pre @ post\<rparr>, None) \<and>
           count_list (pre @ post) sprite + 1 = count_list (sprites seg) sprite"
proof -
  from assms have "sprite \<in> set (sprites seg)"
    by (metis count_list_0_iff not_one_less_zero)
  from list_remove_first [OF this] obtain pre post where pp:
    "sprites seg = pre @ sprite # post" "sprite \<notin> set pre"
    "list_remove sprite (sprites seg) = Inr (pre @ post)"
    by blast
  have c: "count_list (pre @ post) sprite + 1 = count_list (sprites seg) sprite"
    using pp(1) by simp
  have "count_list pre sprite = 0"
    using pp(2) by (simp add: count_list_0_iff)
  with assms pp(1) have "0 < count_list post sprite" by simp
  then have "sprite \<in> set post"
    by (metis count_list_0_iff less_numeral_extra(3))
  moreover have "remove_sprite seg sprite = (seg\<lparr>sprites := pre @ post\<rparr>, None)"
    using pp(3) by (simp add: remove_sprite_def)
  ultimately show ?thesis using pp(1,2) c by blast
qed

theorem remove_sprite_earliest_witness:
  "1 < count_list (sprites example_sprites) 3 \<and>
   (\<exists>pre post.
      sprites example_sprites = pre @ 3 # post \<and>
      3 \<notin> set pre \<and>
      3 \<in> set post \<and>
      remove_sprite example_sprites 3 = (example_sprites\<lparr>sprites := pre @ post\<rparr>, None) \<and>
      count_list (pre @ post) 3 + 1 = count_list (sprites example_sprites) 3)"
proof -
  have h: "1 < count_list (sprites example_sprites) 3"
    by (simp add: example_sprites_def)
  from remove_sprite_earliest [OF h] h show ?thesis by blast
qed

lemma remove_sprite_example:
  "remove_sprite example_sprites 3 = (example_sprites\<lparr>sprites := [5, 7, 3]\<rparr>, None) \<and>
   sprites example_sprites = [5, 3, 7, 3]"
  by (simp add: remove_sprite_def example_sprites_def)

end
